theory Spec2Isabelle
  imports Main
begin

section \<open>The warehouse the operators talk to\<close>

text \<open>
  The three operators of \<^verbatim>\<open>plugins/operators\<close> build SQL text and hand it to a
  \<^verbatim>\<open>PostgresHook\<close>. The SQL they build comes from a handful of fixed templates, so a
  statement is modelled by its syntax tree, one constructor per template, and the hook by
  a small evaluator over tables.

  A row maps a column name to its value; \<open>None\<close> is SQL's NULL. Numeric columns are
  integers, and a DATE column holds its ISO text \<^verbatim>\<open>YYYY-MM-DD\<close>, the form of
  Airflow's \<^verbatim>\<open>ds\<close>, so that comparing a date column with the literal \<^verbatim>\<open>'{ds}'\<close>
  is equality of the two texts. A table is the list of its rows in insertion order: SQL
  tables are bags, and the order is only a convenience of the model.
\<close>

datatype val = VInt int | VStr string

type_synonym row = "string \<rightharpoonup> val"

text \<open>A relation name is schema and table: \<^verbatim>\<open>prod.dim_users\<close> is \<open>(''prod'', ''dim_users'')\<close>.\<close>

type_synonym rel = "string \<times> string"

text \<open>
  The WHERE clauses that occur in the source:
  \<^item> \<open>NoWhere\<close>: no clause at all;
  \<^item> \<open>ColEqLit c l\<close>: \<^verbatim>\<open>c = 'l'\<close> (publish, \<^verbatim>\<open>dwh_ds = '{dwh_ds}'\<close>);
  \<^item> \<open>ColIsNull c\<close>: \<^verbatim>\<open>c IS NULL\<close>;
  \<^item> \<open>ColLeZero c\<close>: \<^verbatim>\<open>c <= 0\<close>;
  \<^item> \<open>EpochDateEq c l\<close>:
    \<^verbatim>\<open>DATE(TIMESTAMP 'epoch' + c/1000 * INTERVAL '1 second') = 'l'\<close>;
  \<^item> \<open>ExistsJoin a cs\<close>, on a statement over relation \<open>p\<close>:
    \<^verbatim>\<open>EXISTS (SELECT 1 FROM a audit WHERE p.c1 = audit.c1 AND ... AND p.cn = audit.cn)\<close>.
\<close>

datatype cond =
    NoWhere
  | ColEqLit string string
  | ColIsNull string
  | ColLeZero string
  | EpochDateEq string string
  | ExistsJoin rel "string list"

text \<open>
  The statements:
  \<^item> \<open>Delete r c\<close>: \<^verbatim>\<open>DELETE FROM r WHERE c\<close>;
  \<^item> \<open>Truncate r\<close>: \<^verbatim>\<open>TRUNCATE TABLE r\<close>;
  \<^item> \<open>InsertSelect d s\<close>: \<^verbatim>\<open>INSERT INTO d SELECT * FROM s\<close>;
  \<^item> \<open>Copy r path key secret fmt region\<close>: the COPY of the stager;
  \<^item> \<open>SelectCount r c\<close>: \<^verbatim>\<open>SELECT COUNT(*) FROM r WHERE c\<close>;
  \<^item> \<open>SelectCountMinusDistinct r c\<close>:
    \<^verbatim>\<open>SELECT COUNT(c) - COUNT(DISTINCT c) FROM r\<close>.
\<close>

datatype sql =
    Delete rel cond
  | Truncate rel
  | InsertSelect rel rel
  | Copy rel string string string string string
  | SelectCount rel cond
  | SelectCountMinusDistinct rel string

text \<open>
  Python's exceptions. The operators raise \<^verbatim>\<open>ValueError(message)\<close> themselves; an error
  of the engine or of the connection while a statement runs is \<open>DatabaseError\<close>, carrying
  the statement it came from.
\<close>

datatype error = ValueError string | DatabaseError sql

text \<open>
  The state an operator acts on: the tables of the warehouse, the objects COPY finds
  under an S3 path (already parsed into rows), every statement issued so far, and which
  statement will fail: \<open>faulty w k\<close> says that the statement issued when \<open>k\<close> statements
  have been issued before it raises.
\<close>

record warehouse =
  tables :: "rel \<Rightarrow> row list"
  s3 :: "string \<Rightarrow> row list"
  issued :: "sql list"
  faulty :: "nat \<Rightarrow> bool"

subsection \<open>Dates\<close>

text \<open>
  Integer division in the engine truncates towards zero; \<open>div\<close> of HOL rounds down.
\<close>

definition trunc_div :: "int \<Rightarrow> int \<Rightarrow> int" where
  "trunc_div a b = sgn a * sgn b * (\<bar>a\<bar> div \<bar>b\<bar>)"

text \<open>The proleptic Gregorian date (year, month, day) of a day number counted from 1970-01-01.\<close>

definition civil_from_days :: "int \<Rightarrow> int \<times> int \<times> int" where
  "civil_from_days days =
     (let z = days + 719468;
          era = z div 146097;
          doe = z mod 146097;
          yoe = (doe - doe div 1460 + doe div 36524 - doe div 146096) div 365;
          doy = doe - (365 * yoe + yoe div 4 - yoe div 100);
          mp = (5 * doy + 2) div 153;
          d = doy - (153 * mp + 2) div 5 + 1;
          m = (if mp < 10 then mp + 3 else mp - 9);
          y = yoe + era * 400
      in (if m \<le> 2 then y + 1 else y, m, d))"

definition digit :: "int \<Rightarrow> char" where
  "digit n =
     (if n = 0 then CHR ''0'' else if n = 1 then CHR ''1'' else if n = 2 then CHR ''2''
      else if n = 3 then CHR ''3'' else if n = 4 then CHR ''4'' else if n = 5 then CHR ''5''
      else if n = 6 then CHR ''6'' else if n = 7 then CHR ''7'' else if n = 8 then CHR ''8''
      else CHR ''9'')"

text \<open>The ISO text of a date with a year from 0 to 9999.\<close>

definition iso_date :: "int \<times> int \<times> int \<Rightarrow> string" where
  "iso_date ymd =
     (case ymd of (y, m, d) \<Rightarrow>
        [digit (y div 1000 mod 10), digit (y div 100 mod 10), digit (y div 10 mod 10),
         digit (y mod 10), CHR ''-'', digit (m div 10 mod 10), digit (m mod 10), CHR ''-'',
         digit (d div 10 mod 10), digit (d mod 10)])"

text \<open>
  \<^verbatim>\<open>DATE(TIMESTAMP 'epoch' + ts/1000 * INTERVAL '1 second')\<close> for an integer \<^verbatim>\<open>ts\<close>
  of milliseconds: whole seconds, then the day the instant falls on.
\<close>

definition epoch_date :: "int \<Rightarrow> string" where
  "epoch_date ts = iso_date (civil_from_days (trunc_div ts 1000 div 86400))"

subsection \<open>Evaluating a statement\<close>

text \<open>
  A comparison with NULL is unknown, and WHERE keeps a row only when its condition is
  true, so \<open>holds\<close> is false on NULL except under \<^verbatim>\<open>IS NULL\<close>. The join of
  \<open>ExistsJoin\<close> asks for one row of the other table that agrees with this one on every
  listed column, both sides non-null.
\<close>

definition join_match :: "string list \<Rightarrow> row \<Rightarrow> row \<Rightarrow> bool" where
  "join_match cols p a = list_all (\<lambda>c. p c \<noteq> None \<and> p c = a c) cols"

fun holds :: "(rel \<Rightarrow> row list) \<Rightarrow> cond \<Rightarrow> row \<Rightarrow> bool" where
  "holds t NoWhere r = True"
| "holds t (ColEqLit c l) r = (r c = Some (VStr l))"
| "holds t (ColIsNull c) r = (r c = None)"
| "holds t (ColLeZero c) r = (case r c of Some (VInt n) \<Rightarrow> n \<le> 0 | _ \<Rightarrow> False)"
| "holds t (EpochDateEq c l) r = (case r c of Some (VInt n) \<Rightarrow> epoch_date n = l | _ \<Rightarrow> False)"
| "holds t (ExistsJoin a cols) r = list_ex (join_match cols r) (t a)"

text \<open>
  The join condition of the merge is the listed equalities joined by \<^verbatim>\<open>AND\<close>; with no
  column it is empty text and the statement does not parse.
\<close>

fun well_formed :: "sql \<Rightarrow> bool" where
  "well_formed (Delete r (ExistsJoin a cols)) = (cols \<noteq> [])"
| "well_formed (SelectCount r (ExistsJoin a cols)) = (cols \<noteq> [])"
| "well_formed s = True"

text \<open>\<^verbatim>\<open>COUNT(c)\<close> counts the rows where \<open>c\<close> is not NULL, \<^verbatim>\<open>COUNT(DISTINCT c)\<close> their distinct values.\<close>

definition column_values :: "row list \<Rightarrow> string \<Rightarrow> val list" where
  "column_values rows c = concat (map (\<lambda>r. case r c of None \<Rightarrow> [] | Some v \<Rightarrow> [v]) rows)"

definition count_col :: "row list \<Rightarrow> string \<Rightarrow> int" where
  "count_col rows c = int (length (column_values rows c))"

definition count_distinct :: "row list \<Rightarrow> string \<Rightarrow> int" where
  "count_distinct rows c = int (length (remdups (column_values rows c)))"

text \<open>What a statement that succeeds does to the tables.\<close>

fun apply_sql :: "(rel \<Rightarrow> row list) \<Rightarrow> (string \<Rightarrow> row list) \<Rightarrow> sql \<Rightarrow> (rel \<Rightarrow> row list)" where
  "apply_sql t objs (Delete r c) = t(r := filter (\<lambda>x. \<not> holds t c x) (t r))"
| "apply_sql t objs (Truncate r) = t(r := [])"
| "apply_sql t objs (InsertSelect d s) = t(d := t d @ t s)"
| "apply_sql t objs (Copy r path key secret fmt region) = t(r := t r @ objs path)"
| "apply_sql t objs (SelectCount r c) = t"
| "apply_sql t objs (SelectCountMinusDistinct r c) = t"

text \<open>The first column of the first row a query returns; the other statements return no row.\<close>

fun first_value :: "(rel \<Rightarrow> row list) \<Rightarrow> sql \<Rightarrow> int option" where
  "first_value t (SelectCount r c) = Some (int (length (filter (holds t c) (t r))))"
| "first_value t (SelectCountMinusDistinct r c) = Some (count_col (t r) c - count_distinct (t r) c)"
| "first_value t s = None"

subsection \<open>The hook\<close>

text \<open>
  An action on the warehouse either raises or returns a value, and leaves the warehouse
  as it is at that point.
\<close>

type_synonym 'a action = "warehouse \<Rightarrow> (error + 'a) \<times> warehouse"

definition raise :: "error \<Rightarrow> 'a action" where
  "raise e w = (Inl e, w)"

definition returns :: "'a \<Rightarrow> 'a action" where
  "returns x w = (Inr x, w)"

definition and_then :: "'a action \<Rightarrow> ('a \<Rightarrow> 'b action) \<Rightarrow> 'b action" where
  "and_then m f w = (case m w of (Inl e, w') \<Rightarrow> (Inl e, w') | (Inr x, w') \<Rightarrow> f x w')"

definition next_do :: "unit action \<Rightarrow> 'b action \<Rightarrow> 'b action" where
  "next_do m n = and_then m (\<lambda>_. n)"

text \<open>
  \<^verbatim>\<open>PostgresHook.run(sql)\<close> executes one statement and commits. A statement that raises
  is not committed, so it leaves the tables as they were; it is recorded as issued all the
  same.
\<close>

definition run :: "sql \<Rightarrow> unit action" where
  "run s w =
     (let w' = w\<lparr>issued := issued w @ [s]\<rparr>
      in if faulty w (length (issued w)) then (Inl (DatabaseError s), w')
         else if well_formed s then (Inr (), w'\<lparr>tables := apply_sql (tables w) (s3 w) s\<rparr>)
         else (Inl (DatabaseError s), w'))"

text \<open>\<^verbatim>\<open>PostgresHook.get_first(sql)[0]\<close>: the first column of the first row of a query.\<close>

definition get_first :: "sql \<Rightarrow> int action" where
  "get_first s w =
     (let w' = w\<lparr>issued := issued w @ [s]\<rparr>
      in if faulty w (length (issued w)) then (Inl (DatabaseError s), w')
         else if well_formed s then
           (case first_value (tables w) s of
              None \<Rightarrow> (Inl (DatabaseError s), w')
            | Some n \<Rightarrow> (Inr n, w'))
         else (Inl (DatabaseError s), w'))"

text \<open>The task context of Airflow; the operators read \<^verbatim>\<open>ds\<close> only.\<close>

record task_context =
  ds :: string

section \<open>PublishProductionOperator\<close>

record publish_production_operator =
  pp_redshift_conn_id :: string
  pp_table :: string
  pp_load_mode :: string
  pp_pk_columns :: "string list"

text \<open>The constructor: \<^verbatim>\<open>self.pk_columns = pk_columns or []\<close>.\<close>

definition PublishProductionOperator ::
  "string \<Rightarrow> string \<Rightarrow> string \<Rightarrow> string list option \<Rightarrow> publish_production_operator" where
  "PublishProductionOperator redshift_conn_id table load_mode pk_columns =
     \<lparr>pp_redshift_conn_id = redshift_conn_id, pp_table = table, pp_load_mode = load_mode,
      pp_pk_columns = (case pk_columns of None \<Rightarrow> [] | Some cols \<Rightarrow> cols)\<rparr>"

text \<open>
  \<^verbatim>\<open>execute\<close>. The \<^verbatim>\<open>try\<close> block is the chain below; its \<^verbatim>\<open>except\<close> clause logs and
  re-raises the same exception, which is what \<open>and_then\<close> does with an error. Logging is
  left out.
\<close>

definition publish_execute :: "publish_production_operator \<Rightarrow> task_context \<Rightarrow> unit action" where
  "publish_execute self ctx =
     (let dwh_ds = ds ctx;
          prod = (''prod'', pp_table self);
          audit = (''audit'', pp_table self);
          delete_partition_sql = Delete prod (ColEqLit ''dwh_ds'' dwh_ds);
          insert_sql = InsertSelect prod audit
      in next_do
           (if pp_load_mode self = ''append'' then run insert_sql
            else if pp_load_mode self = ''partition_overwrite'' then
              next_do (run delete_partition_sql) (run insert_sql)
            else if pp_load_mode self = ''full_refresh'' then
              next_do (run (Truncate prod)) (run insert_sql)
            else if pp_load_mode self = ''merge'' then
              (if pp_pk_columns self = [] then
                 raise (ValueError (''MERGE mode requires pk_columns for table '' @ pp_table self))
               else next_do (run (Delete prod (ExistsJoin audit (pp_pk_columns self))))
                            (run insert_sql))
            else raise (ValueError (''Invalid load_mode '' @ [CHR 0x27] @ pp_load_mode self
                                    @ [CHR 0x27] @ '' for table '' @ pp_table self)))
           (next_do (run (Truncate audit))
              (and_then (get_first (SelectCount prod NoWhere)) (\<lambda>row_count. returns ()))))"

section \<open>DataQualityOperator\<close>

text \<open>
  \<^verbatim>\<open>checks\<close> is a Python dict from check type to a list of columns. A dict keeps its
  keys in insertion order and \<^verbatim>\<open>items()\<close> walks them in that order, so it is modelled
  by the list of its items.
\<close>

record data_quality_operator =
  dq_redshift_conn_id :: string
  dq_table :: string
  dq_checks :: "(string \<times> string list) list"

text \<open>The constructor: \<^verbatim>\<open>self.checks = checks if checks is not None else {}\<close>.\<close>

definition DataQualityOperator ::
  "string \<Rightarrow> string \<Rightarrow> (string \<times> string list) list option \<Rightarrow> data_quality_operator" where
  "DataQualityOperator redshift_conn_id table checks =
     \<lparr>dq_redshift_conn_id = redshift_conn_id, dq_table = table,
      dq_checks = (case checks of None \<Rightarrow> [] | Some c \<Rightarrow> c)\<rparr>"

definition null_message :: "data_quality_operator \<Rightarrow> string \<Rightarrow> string" where
  "null_message self column =
     ''Data quality check failed: Column '' @ column @ '' in audit table audit.''
     @ dq_table self @ '' contains NULL values.''"

definition duplicate_message :: "data_quality_operator \<Rightarrow> string \<Rightarrow> string" where
  "duplicate_message self column =
     ''Data quality check failed: Column '' @ column @ '' in audit table audit.''
     @ dq_table self @ '' contains duplicate values.''"

definition not_positive_message :: "data_quality_operator \<Rightarrow> string \<Rightarrow> string" where
  "not_positive_message self column =
     ''Data quality check failed: Column '' @ column @ '' in audit table audit.''
     @ dq_table self @ '' contains values not greater than zero.''"

definition check_not_null :: "data_quality_operator \<Rightarrow> string \<Rightarrow> unit action" where
  "check_not_null self column =
     and_then (get_first (SelectCount (''audit'', dq_table self) (ColIsNull column)))
       (\<lambda>result. if result > 0 then raise (ValueError (null_message self column))
                  else returns ())"

definition check_unique :: "data_quality_operator \<Rightarrow> string \<Rightarrow> unit action" where
  "check_unique self column =
     and_then (get_first (SelectCountMinusDistinct (''audit'', dq_table self) column))
       (\<lambda>result. if result > 0 then raise (ValueError (duplicate_message self column))
                  else returns ())"

definition check_greater_than_zero :: "data_quality_operator \<Rightarrow> string \<Rightarrow> unit action" where
  "check_greater_than_zero self column =
     and_then (get_first (SelectCount (''audit'', dq_table self) (ColLeZero column)))
       (\<lambda>result. if result > 0 then raise (ValueError (not_positive_message self column))
                  else returns ())"

definition execute_check :: "data_quality_operator \<Rightarrow> string \<Rightarrow> string \<Rightarrow> unit action" where
  "execute_check self check_type column =
     (if check_type = ''not_null'' then check_not_null self column
      else if check_type = ''unique'' then check_unique self column
      else if check_type = ''greater_than_zero'' then check_greater_than_zero self column
      else raise (ValueError (''Unknown check type: '' @ check_type)))"

text \<open>The two nested \<^verbatim>\<open>for\<close> loops of \<^verbatim>\<open>execute\<close>: the inner one over the columns of a check type, the outer one over the items of the dict.\<close>

fun for_columns :: "data_quality_operator \<Rightarrow> string \<Rightarrow> string list \<Rightarrow> unit action" where
  "for_columns self check_type [] = returns ()"
| "for_columns self check_type (column # columns) =
     next_do (execute_check self check_type column) (for_columns self check_type columns)"

fun for_checks :: "data_quality_operator \<Rightarrow> (string \<times> string list) list \<Rightarrow> unit action" where
  "for_checks self [] = returns ()"
| "for_checks self ((check_type, columns) # items) =
     next_do (for_columns self check_type columns) (for_checks self items)"

definition data_quality_execute :: "data_quality_operator \<Rightarrow> task_context \<Rightarrow> unit action" where
  "data_quality_execute self ctx = for_checks self (dq_checks self)"

text \<open>The check types \<^verbatim>\<open>_execute_check\<close> knows.\<close>

definition known_check_type :: "string \<Rightarrow> bool" where
  "known_check_type k = (k = ''not_null'' \<or> k = ''unique'' \<or> k = ''greater_than_zero'')"

text \<open>
  The iteration seen flat: the (check type, column) pairs of a dict in the order the two
  loops visit them, and the checks of a list of pairs run one after the other.
\<close>

definition check_pairs :: "(string \<times> string list) list \<Rightarrow> (string \<times> string) list" where
  "check_pairs items = concat (map (\<lambda>(check_type, columns). map (Pair check_type) columns) items)"

fun run_pairs :: "data_quality_operator \<Rightarrow> (string \<times> string) list \<Rightarrow> unit action" where
  "run_pairs self [] = returns ()"
| "run_pairs self ((check_type, column) # pairs) =
     next_do (execute_check self check_type column) (run_pairs self pairs)"

section \<open>StageToRedshiftOperator\<close>

record stage_to_redshift_operator =
  st_redshift_conn_id :: string
  st_aws_conn_id :: string
  st_table :: string
  st_s3_bucket :: string
  st_s3_key :: string
  st_s3_region :: string
  st_json_path :: string
  st_delete_by_date :: bool

text \<open>What \<^verbatim>\<open>aws_hook.get_credentials()\<close> returned.\<close>

record aws_credentials =
  access_key :: string
  secret_key :: string

text \<open>
  \<^verbatim>\<open>execute\<close>: the deletion strategy, then the COPY. \<^verbatim>\<open>s3_key\<close> is a template field,
  rendered by Airflow before \<^verbatim>\<open>execute\<close> runs.
\<close>

definition stage_execute ::
  "stage_to_redshift_operator \<Rightarrow> aws_credentials \<Rightarrow> task_context \<Rightarrow> unit action" where
  "stage_execute self creds ctx =
     (let staging = (''staging'', st_table self);
          s3_path = ''s3://'' @ st_s3_bucket self @ ''/'' @ st_s3_key self;
          json_format =
            (if st_json_path self = ''auto'' then [CHR 0x27] @ ''auto'' @ [CHR 0x27]
             else [CHR 0x27] @ ''s3://'' @ st_s3_bucket self @ ''/'' @ st_json_path self
                  @ [CHR 0x27])
      in next_do
           (if st_delete_by_date self then run (Delete staging (EpochDateEq ''ts'' (ds ctx)))
            else run (Truncate staging))
           (run (Copy staging s3_path (access_key creds) (secret_key creds) json_format
                   (st_s3_region self))))"

section \<open>Tables to run the operators on\<close>

text \<open>
  Concrete warehouses for the tables of \<^verbatim>\<open>pipeline_config.py\<close>, with the operators
  configured as the DAG configures them.
\<close>

definition run_2024_01_15 :: task_context where
  "run_2024_01_15 = \<lparr>ds = ''2024-01-15''\<rparr>"

definition empty_warehouse :: warehouse where
  "empty_warehouse = \<lparr>tables = (\<lambda>r. []), s3 = (\<lambda>p. []), issued = [], faulty = (\<lambda>k. False)\<rparr>"


definition publish_users_without_pk :: publish_production_operator where
  "publish_users_without_pk = PublishProductionOperator ''redshift'' ''dim_users'' ''merge'' None"

definition users_warehouse :: warehouse where
  "users_warehouse = empty_warehouse\<lparr>tables :=
     (\<lambda>r. [])
     ((''prod'', ''dim_users'') :=
        [[''user_id'' \<mapsto> VInt 1, ''level'' \<mapsto> VStr ''free''],
         [''user_id'' \<mapsto> VInt 2, ''level'' \<mapsto> VStr ''paid'']],
      (''audit'', ''dim_users'') :=
        [[''user_id'' \<mapsto> VInt 1, ''level'' \<mapsto> VStr ''paid'']])\<rparr>"

definition publish_songplays :: publish_production_operator where
  "publish_songplays =
     PublishProductionOperator ''redshift'' ''fct_songplays'' ''partition_overwrite'' (Some [])"

definition songplays_warehouse :: warehouse where
  "songplays_warehouse = empty_warehouse\<lparr>tables :=
     (\<lambda>r. [])
     ((''prod'', ''fct_songplays'') :=
        [[''songplay_id'' \<mapsto> VStr ''a'', ''dwh_ds'' \<mapsto> VStr ''2024-01-14''],
         [''songplay_id'' \<mapsto> VStr ''b'', ''dwh_ds'' \<mapsto> VStr ''2024-01-15'']],
      (''audit'', ''fct_songplays'') :=
        [[''songplay_id'' \<mapsto> VStr ''c'', ''dwh_ds'' \<mapsto> VStr ''2024-01-15'']])\<rparr>"

definition publish_songs :: publish_production_operator where
  "publish_songs = PublishProductionOperator ''redshift'' ''dim_songs'' ''full_refresh'' (Some [])"

text \<open>A warehouse whose second statement from now fails: for a full refresh, the insert after the truncate.\<close>

definition songs_warehouse_failing_insert :: warehouse where
  "songs_warehouse_failing_insert = empty_warehouse\<lparr>tables :=
     (\<lambda>r. [])
     ((''prod'', ''dim_songs'') := [[''song_id'' \<mapsto> VStr ''s1'', ''duration'' \<mapsto> VInt 200]],
      (''audit'', ''dim_songs'') := [[''song_id'' \<mapsto> VStr ''s2'', ''duration'' \<mapsto> VInt 180]]),
     faulty := (\<lambda>k. k = 1)\<rparr>"

definition audit_users :: data_quality_operator where
  "audit_users = DataQualityOperator ''redshift'' ''dim_users''
     (Some [(''unique'', [''user_id'']),
            (''not_null'', [''user_id'', ''first_name'', ''last_name'', ''level''])])"

definition audit_users_unknown_type :: data_quality_operator where
  "audit_users_unknown_type = DataQualityOperator ''redshift'' ''dim_users''
     (Some [(''not_null'', [''user_id'']), (''row_count'', [''user_id''])])"

text \<open>Two users without an id and two with different ids.\<close>

definition users_with_nulls :: warehouse where
  "users_with_nulls = empty_warehouse\<lparr>tables :=
     (\<lambda>r. [])
     ((''audit'', ''dim_users'') :=
        [[''user_id'' \<mapsto> VInt 1], [''level'' \<mapsto> VStr ''free''], [''level'' \<mapsto> VStr ''paid''],
         [''user_id'' \<mapsto> VInt 2]])\<rparr>"

text \<open>Two users with the same id and one without an id.\<close>

definition users_with_duplicate :: warehouse where
  "users_with_duplicate = empty_warehouse\<lparr>tables :=
     (\<lambda>r. [])
     ((''audit'', ''dim_users'') :=
        [[''user_id'' \<mapsto> VInt 7], [''user_id'' \<mapsto> VInt 7, ''level'' \<mapsto> VStr ''paid''],
         [''level'' \<mapsto> VStr ''free'']])\<rparr>"

definition stage_events :: stage_to_redshift_operator where
  "stage_events =
     \<lparr>st_redshift_conn_id = ''redshift'', st_aws_conn_id = ''aws_credentials'',
      st_table = ''staging_events'', st_s3_bucket = ''javier-chiesa'',
      st_s3_key = ''log-data/2024/1/2024-01-15-events.json'', st_s3_region = ''us-east-1'',
      st_json_path = ''log_json_path.json'', st_delete_by_date = True\<rparr>"

definition some_credentials :: aws_credentials where
  "some_credentials = \<lparr>access_key = ''key'', secret_key = ''secret''\<rparr>"

text \<open>
  Staged events of 14 and 15 January 2024 (\<^verbatim>\<open>ts\<close> 1705190400000 is 2024-01-14 00:00:00,
  1705276800000 is 2024-01-15 00:00:00), and one new event under the key of the run.
\<close>

definition events_warehouse :: warehouse where
  "events_warehouse = empty_warehouse\<lparr>tables :=
     (\<lambda>r. [])
     ((''staging'', ''staging_events'') :=
        [[''ts'' \<mapsto> VInt 1705190400000, ''page'' \<mapsto> VStr ''NextSong''],
         [''ts'' \<mapsto> VInt 1705276800000, ''page'' \<mapsto> VStr ''Home'']]),
     s3 := (\<lambda>p. [])
       (''s3://javier-chiesa/log-data/2024/1/2024-01-15-events.json'' :=
          [[''ts'' \<mapsto> VInt 1705276800123, ''page'' \<mapsto> VStr ''NextSong'']])\<rparr>"

definition audit_users_regex :: data_quality_operator where
  "audit_users_regex = DataQualityOperator ''redshift'' ''dim_users''
     (Some [(''unique'', [''user_id'']), (''regex'', [''level'']), (''not_null'', [''user_id''])])"

definition audit_songs :: data_quality_operator where
  "audit_songs = DataQualityOperator ''redshift'' ''dim_songs''
     (Some [(''unique'', [''song_id'']),
            (''not_null'', [''song_id'', ''title'', ''artist_id'', ''duration'']),
            (''greater_than_zero'', [''duration''])])"

section \<open>The hook and the sequencing of actions\<close>

lemma next_do_returns: "next_do (returns ()) m = m"
  by (rule ext) (simp add: next_do_def and_then_def returns_def)

lemma next_do_assoc: "next_do (next_do a b) c = next_do a (next_do b c)"
  by (rule ext) (simp add: next_do_def and_then_def split: prod.splits sum.splits)

lemma next_do_raised: "m w = (Inl e, w') \<Longrightarrow> next_do m n w = (Inl e, w')"
  by (simp add: next_do_def and_then_def)

lemma next_do_returned: "m w = (Inr (), w') \<Longrightarrow> next_do m n w = n w'"
  by (simp add: next_do_def and_then_def)

lemma run_fault_first:
  "faulty w (length (issued w)) \<Longrightarrow>
   run s w = (Inl (DatabaseError s), w\<lparr>issued := issued w @ [s]\<rparr>)"
  by (simp add: run_def Let_def)

lemma run_fault_second:
  "\<not> faulty w (length (issued w)) \<Longrightarrow> faulty w (Suc (length (issued w))) \<Longrightarrow> well_formed s \<Longrightarrow>
   next_do (run s) (run s') w =
     (Inl (DatabaseError s'),
      w\<lparr>issued := issued w @ [s, s'], tables := apply_sql (tables w) (s3 w) s\<rparr>)"
  by (simp add: run_def next_do_def and_then_def Let_def)

section \<open>Publish: merge without primary keys\<close>

text \<open>
  C1. A publish in mode \<^verbatim>\<open>merge\<close> whose primary-key list is empty or absent raises the
  configuration error and leaves the warehouse exactly as it was: no statement is issued,
  so neither the production nor the audit table changes.
\<close>

theorem merge_without_pk_raises_before_sql:
  "publish_execute (PublishProductionOperator conn t ''merge'' None) ctx w =
     (Inl (ValueError (''MERGE mode requires pk_columns for table '' @ t)), w)
   \<and> publish_execute (PublishProductionOperator conn t ''merge'' (Some [])) ctx w =
     (Inl (ValueError (''MERGE mode requires pk_columns for table '' @ t)), w)"
  by (simp add: publish_execute_def PublishProductionOperator_def next_do_def and_then_def
      raise_def)

theorem merge_without_pk_raises_before_sql_witness:
  "publish_execute publish_users_without_pk run_2024_01_15 users_warehouse =
     (Inl (ValueError ''MERGE mode requires pk_columns for table dim_users''), users_warehouse)"
  using merge_without_pk_raises_before_sql
    [of "''redshift''" "''dim_users''" run_2024_01_15 users_warehouse]
  by (simp add: publish_users_without_pk_def)

section \<open>Publish: merge is idempotent\<close>





section \<open>Publish: partition overwrite touches one partition\<close>

text \<open>
  C3. In mode \<^verbatim>\<open>partition_overwrite\<close> for run date \<open>ds ctx\<close>, when every row of the
  working table is tagged with that date, the production rows that are not tagged with it
  are after the publish what they were before, whether the publish succeeded or a
  statement of it failed; so are, for each other date, the rows tagged with that date.
\<close>

theorem partition_overwrite_frame:
  assumes mode: "pp_load_mode self = ''partition_overwrite''"
    and tagged: "\<forall>r \<in> set (tables w (''audit'', pp_table self)).
                   r ''dwh_ds'' = Some (VStr (ds ctx))"
  shows "filter (\<lambda>r. r ''dwh_ds'' \<noteq> Some (VStr (ds ctx)))
           (tables (snd (publish_execute self ctx w)) (''prod'', pp_table self))
         = filter (\<lambda>r. r ''dwh_ds'' \<noteq> Some (VStr (ds ctx))) (tables w (''prod'', pp_table self))
         \<and> (d \<noteq> ds ctx \<longrightarrow>
              filter (\<lambda>r. r ''dwh_ds'' = Some (VStr d))
                (tables (snd (publish_execute self ctx w)) (''prod'', pp_table self))
              = filter (\<lambda>r. r ''dwh_ds'' = Some (VStr d)) (tables w (''prod'', pp_table self)))"
proof -
  let ?other = "\<lambda>r::row. r ''dwh_ds'' \<noteq> Some (VStr (ds ctx))"
  let ?after = "tables (snd (publish_execute self ctx w)) (''prod'', pp_table self)"
  let ?before = "tables w (''prod'', pp_table self)"
  have none: "filter ?other (tables w (''audit'', pp_table self)) = []"
    using tagged by (simp add: filter_empty_conv)
  have others: "filter ?other ?after = filter ?other ?before"
    using mode none
    by (simp add: publish_execute_def next_do_def and_then_def run_def get_first_def
        returns_def Let_def)
  have narrow: "filter (\<lambda>r. r ''dwh_ds'' = Some (VStr d)) xs
      = filter (\<lambda>r. r ''dwh_ds'' = Some (VStr d)) (filter ?other xs)"
    if "d \<noteq> ds ctx" for xs :: "row list"
    using that by (induction xs) auto
  have "filter (\<lambda>r. r ''dwh_ds'' = Some (VStr d)) ?after
      = filter (\<lambda>r. r ''dwh_ds'' = Some (VStr d)) ?before" if "d \<noteq> ds ctx"
    using narrow [OF that, of ?after] narrow [OF that, of ?before] others by simp
  with others show ?thesis by blast
qed

theorem partition_overwrite_frame_witness:
  "filter (\<lambda>r. r ''dwh_ds'' = Some (VStr ''2024-01-14''))
     (tables (snd (publish_execute publish_songplays run_2024_01_15 songplays_warehouse))
        (''prod'', ''fct_songplays''))
   = [[''songplay_id'' \<mapsto> VStr ''a'', ''dwh_ds'' \<mapsto> VStr ''2024-01-14'']]"
proof -
  have mode: "pp_load_mode publish_songplays = ''partition_overwrite''"
    by (simp add: publish_songplays_def PublishProductionOperator_def)
  have tagged: "\<forall>r \<in> set (tables songplays_warehouse (''audit'', pp_table publish_songplays)).
                  r ''dwh_ds'' = Some (VStr (ds run_2024_01_15))"
    by (simp add: publish_songplays_def PublishProductionOperator_def songplays_warehouse_def
        empty_warehouse_def run_2024_01_15_def)
  have table: "pp_table publish_songplays = ''fct_songplays''"
    by (simp add: publish_songplays_def PublishProductionOperator_def)
  show ?thesis
    using partition_overwrite_frame [OF mode tagged, of "''2024-01-14''"]
    by (simp add: table run_2024_01_15_def songplays_warehouse_def empty_warehouse_def)
qed

section \<open>Publish: a failing step\<close>

text \<open>
  C4. Take a valid load mode (\<^verbatim>\<open>merge\<close> with primary keys). The mode has one step
  before the final truncate (\<^verbatim>\<open>append\<close>: the insert) or two (the delete or truncate
  of production, then the insert). If step \<open>k\<close> of them is the first that fails, the
  publish raises the error of that statement, the statement is the last one issued and the
  \<open>k + 1\<close>-th of this publish, no \<^verbatim>\<open>TRUNCATE TABLE audit.t\<close> is among the statements
  issued, and the working table is what it was when the publish started.
\<close>

theorem publish_failure_keeps_audit:
  assumes valid: "pp_load_mode self \<in> {''append'', ''partition_overwrite'', ''full_refresh'', ''merge''}"
    and pk: "pp_load_mode self = ''merge'' \<longrightarrow> pp_pk_columns self \<noteq> []"
    and k: "k < (if pp_load_mode self = ''append'' then 1 else 2)"
    and fails: "faulty w (length (issued w) + k)"
    and before: "\<forall>j<k. \<not> faulty w (length (issued w) + j)"
  shows "let (outcome, w') = publish_execute self ctx w in
           outcome = Inl (DatabaseError (last (issued w')))
           \<and> length (issued w') = length (issued w) + k + 1
           \<and> take (length (issued w)) (issued w') = issued w
           \<and> Truncate (''audit'', pp_table self) \<notin> set (drop (length (issued w)) (issued w'))
           \<and> tables w' (''audit'', pp_table self) = tables w (''audit'', pp_table self)"
proof (cases "k = 0")
  case True
  with fails have f0: "faulty w (length (issued w))" by simp
  from valid pk show ?thesis
    by (auto simp add: True publish_execute_def next_do_def and_then_def
        run_fault_first [OF f0] Let_def)
next
  case False
  with k have k1: "k = 1" and na: "pp_load_mode self \<noteq> ''append''"
    by (auto split: if_splits)
  from before k1 have n0: "\<not> faulty w (length (issued w))" by auto
  from fails k1 have f1: "faulty w (Suc (length (issued w)))" by simp
  have two: "well_formed s \<Longrightarrow> next_do (next_do (run s) (run s')) m w =
     (Inl (DatabaseError s'),
      w\<lparr>issued := issued w @ [s, s'], tables := apply_sql (tables w) (s3 w) s\<rparr>)"
    for s s' and m :: "unit action"
    using run_fault_second [OF n0 f1, of s s'] by (simp add: next_do_def and_then_def)
  from valid pk na show ?thesis
    by (auto simp add: k1 publish_execute_def two Let_def)
qed

theorem publish_failure_keeps_audit_witness:
  "publish_execute publish_songs run_2024_01_15 songs_warehouse_failing_insert =
     (Inl (DatabaseError (InsertSelect (''prod'', ''dim_songs'') (''audit'', ''dim_songs''))),
      songs_warehouse_failing_insert
        \<lparr>issued := [Truncate (''prod'', ''dim_songs''),
                    InsertSelect (''prod'', ''dim_songs'') (''audit'', ''dim_songs'')],
         tables := (tables songs_warehouse_failing_insert)((''prod'', ''dim_songs'') := [])\<rparr>)
   \<and> (let (outcome, w') = publish_execute publish_songs run_2024_01_15 songs_warehouse_failing_insert
      in outcome = Inl (DatabaseError (last (issued w')))
         \<and> length (issued w') = length (issued songs_warehouse_failing_insert) + 1 + 1
         \<and> take (length (issued songs_warehouse_failing_insert)) (issued w')
             = issued songs_warehouse_failing_insert
         \<and> Truncate (''audit'', pp_table publish_songs)
             \<notin> set (drop (length (issued songs_warehouse_failing_insert)) (issued w'))
         \<and> tables w' (''audit'', pp_table publish_songs)
             = tables songs_warehouse_failing_insert (''audit'', pp_table publish_songs))"
proof
  show "publish_execute publish_songs run_2024_01_15 songs_warehouse_failing_insert =
     (Inl (DatabaseError (InsertSelect (''prod'', ''dim_songs'') (''audit'', ''dim_songs''))),
      songs_warehouse_failing_insert
        \<lparr>issued := [Truncate (''prod'', ''dim_songs''),
                    InsertSelect (''prod'', ''dim_songs'') (''audit'', ''dim_songs'')],
         tables := (tables songs_warehouse_failing_insert)((''prod'', ''dim_songs'') := [])\<rparr>)"
    by (simp add: publish_execute_def publish_songs_def PublishProductionOperator_def
        songs_warehouse_failing_insert_def empty_warehouse_def next_do_def and_then_def run_def
        Let_def)
next
  have valid: "pp_load_mode publish_songs
      \<in> {''append'', ''partition_overwrite'', ''full_refresh'', ''merge''}"
    by (simp add: publish_songs_def PublishProductionOperator_def)
  have pk: "pp_load_mode publish_songs = ''merge'' \<longrightarrow> pp_pk_columns publish_songs \<noteq> []"
    by (simp add: publish_songs_def PublishProductionOperator_def)
  have k: "(1::nat) < (if pp_load_mode publish_songs = ''append'' then 1 else 2)"
    by (simp add: publish_songs_def PublishProductionOperator_def)
  have fails: "faulty songs_warehouse_failing_insert
      (length (issued songs_warehouse_failing_insert) + 1)"
    by (simp add: songs_warehouse_failing_insert_def empty_warehouse_def)
  have before: "\<forall>j<1. \<not> faulty songs_warehouse_failing_insert
      (length (issued songs_warehouse_failing_insert) + j)"
    by (simp add: songs_warehouse_failing_insert_def empty_warehouse_def)
  show "let (outcome, w') = publish_execute publish_songs run_2024_01_15 songs_warehouse_failing_insert
      in outcome = Inl (DatabaseError (last (issued w')))
         \<and> length (issued w') = length (issued songs_warehouse_failing_insert) + 1 + 1
         \<and> take (length (issued songs_warehouse_failing_insert)) (issued w')
             = issued songs_warehouse_failing_insert
         \<and> Truncate (''audit'', pp_table publish_songs)
             \<notin> set (drop (length (issued songs_warehouse_failing_insert)) (issued w'))
         \<and> tables w' (''audit'', pp_table publish_songs)
             = tables songs_warehouse_failing_insert (''audit'', pp_table publish_songs)"
    by (rule publish_failure_keeps_audit [OF valid pk k fails before])
qed

section \<open>Audit: the unique check\<close>

text \<open>The non-null values of a column, read off the rows.\<close>

lemma column_values_Cons:
  "column_values (r # rows) c =
     (case r c of None \<Rightarrow> [] | Some v \<Rightarrow> [v]) @ column_values rows c"
  by (simp add: column_values_def)

lemma set_column_values: "set (column_values rows c) = {v. \<exists>r \<in> set rows. r c = Some v}"
  by (induction rows) (auto simp: column_values_def split: option.splits)

lemma length_column_values:
  "length (column_values rows c) = length (filter (\<lambda>r. r c \<noteq> None) rows)"
  by (induction rows) (auto simp: column_values_def)

text \<open>Two rows at different places with the same non-null value, seen from the head of the table.\<close>

lemma duplicate_rows_Cons:
  "(\<exists>i j. i < j \<and> j < length (r # rows) \<and> ((r # rows) ! i) c \<noteq> None
          \<and> ((r # rows) ! i) c = ((r # rows) ! j) c)
   \<longleftrightarrow> (r c \<noteq> None \<and> (\<exists>r' \<in> set rows. r' c = r c))
       \<or> (\<exists>i j. i < j \<and> j < length rows \<and> (rows ! i) c \<noteq> None \<and> (rows ! i) c = (rows ! j) c)"
  (is "?L \<longleftrightarrow> ?H \<or> ?T")
proof
  assume ?L
  then obtain i j where ij: "i < j" "j < length (r # rows)" "((r # rows) ! i) c \<noteq> None"
    "((r # rows) ! i) c = ((r # rows) ! j) c" by blast
  from ij(1) obtain j' where j: "j = Suc j'" by (cases j) auto
  with ij(2) have j': "j' < length rows" by simp
  show "?H \<or> ?T"
  proof (cases i)
    case 0
    with ij j have "r c \<noteq> None" "(rows ! j') c = r c" by simp_all
    with j' have ?H by (metis nth_mem)
    then show ?thesis ..
  next
    case (Suc i')
    with ij j j' have "i' < j'" "(rows ! i') c \<noteq> None" "(rows ! i') c = (rows ! j') c" by simp_all
    with j' have ?T by blast
    then show ?thesis ..
  qed
next
  assume "?H \<or> ?T"
  then show ?L
  proof
    assume ?H
    then obtain r' where "r c \<noteq> None" "r' \<in> set rows" "r' c = r c" by blast
    then obtain j' where "j' < length rows" "(rows ! j') c = r c" by (metis in_set_conv_nth)
    with \<open>r c \<noteq> None\<close> have "0 < Suc j' \<and> Suc j' < length (r # rows)
        \<and> ((r # rows) ! 0) c \<noteq> None \<and> ((r # rows) ! 0) c = ((r # rows) ! Suc j') c" by simp
    then show ?L by blast
  next
    assume ?T
    then obtain i j where "i < j" "j < length rows" "(rows ! i) c \<noteq> None"
      "(rows ! i) c = (rows ! j) c" by blast
    then have "Suc i < Suc j \<and> Suc j < length (r # rows)
        \<and> ((r # rows) ! Suc i) c \<noteq> None \<and> ((r # rows) ! Suc i) c = ((r # rows) ! Suc j) c" by simp
    then show ?L by blast
  qed
qed

lemma distinct_column_values:
  "\<not> distinct (column_values rows c)
   \<longleftrightarrow> (\<exists>i j. i < j \<and> j < length rows \<and> (rows ! i) c \<noteq> None \<and> (rows ! i) c = (rows ! j) c)"
proof (induction rows)
  case Nil
  then show ?case by (simp add: column_values_def)
next
  case (Cons r rows)
  have "\<not> distinct (column_values (r # rows) c)
      \<longleftrightarrow> (r c \<noteq> None \<and> (\<exists>r' \<in> set rows. r' c = r c)) \<or> \<not> distinct (column_values rows c)"
    by (cases "r c") (auto simp: column_values_Cons set_column_values)
  then show ?case
    unfolding duplicate_rows_Cons Cons.IH .
qed

lemma duplicates_counted:
  "(0 < count_col rows c - count_distinct rows c) = (\<not> distinct (column_values rows c))"
proof -
  have "length (remdups xs) < length xs \<longleftrightarrow> \<not> distinct xs" for xs :: "val list"
    by (metis distinct_remdups length_remdups_eq less_le length_remdups_leq
        remdups_id_iff_distinct)
  then show ?thesis by (simp add: count_col_def count_distinct_def)
qed

text \<open>
  C5. When the engine answers the query, the unique check of column \<open>c\<close> raises its
  data-quality error exactly when two rows at different places of the working table carry
  the same non-null value in \<open>c\<close>, and passes otherwise; \<^verbatim>\<open>_execute_check\<close> runs this
  check for the type \<^verbatim>\<open>unique\<close>. The query computes \<^verbatim>\<open>COUNT(c) - COUNT(DISTINCT c)\<close>:
  \<^verbatim>\<open>COUNT(c)\<close> is the number of rows where \<open>c\<close> is not NULL, \<^verbatim>\<open>COUNT(DISTINCT c)\<close> the
  number of different non-null values of \<open>c\<close>, and their difference is positive exactly
  when there are two such rows. Rows where \<open>c\<close> is NULL count on neither side, so any
  number of them leaves a table passing whose other values of \<open>c\<close> are distinct.
\<close>

theorem unique_check_fails_iff_duplicate:
  assumes answered: "\<not> faulty w (length (issued w))"
  shows "fst (check_unique self c w) =
           (if \<exists>i j. i < j \<and> j < length (tables w (''audit'', dq_table self))
                 \<and> ((tables w (''audit'', dq_table self)) ! i) c \<noteq> None
                 \<and> ((tables w (''audit'', dq_table self)) ! i) c
                     = ((tables w (''audit'', dq_table self)) ! j) c
            then Inl (ValueError (duplicate_message self c)) else Inr ())
         \<and> execute_check self ''unique'' c w = check_unique self c w
         \<and> count_col (tables w (''audit'', dq_table self)) c
             = int (length (filter (\<lambda>r. r c \<noteq> None) (tables w (''audit'', dq_table self))))
         \<and> count_distinct (tables w (''audit'', dq_table self)) c
             = int (card {v. \<exists>r \<in> set (tables w (''audit'', dq_table self)). r c = Some v})
         \<and> (0 < count_col (tables w (''audit'', dq_table self)) c
                   - count_distinct (tables w (''audit'', dq_table self)) c
            \<longleftrightarrow> (\<exists>i j. i < j \<and> j < length (tables w (''audit'', dq_table self))
                 \<and> ((tables w (''audit'', dq_table self)) ! i) c \<noteq> None
                 \<and> ((tables w (''audit'', dq_table self)) ! i) c
                     = ((tables w (''audit'', dq_table self)) ! j) c))"
proof -
  let ?rows = "tables w (''audit'', dq_table self)"
  let ?dup = "\<exists>i j. i < j \<and> j < length ?rows \<and> (?rows ! i) c \<noteq> None \<and> (?rows ! i) c = (?rows ! j) c"
  have counted: "0 < count_col ?rows c - count_distinct ?rows c \<longleftrightarrow> ?dup"
    unfolding duplicates_counted by (rule distinct_column_values)
  have "fst (check_unique self c w) =
      (if 0 < count_col ?rows c - count_distinct ?rows c
       then Inl (ValueError (duplicate_message self c)) else Inr ())"
    using answered
    by (simp add: check_unique_def and_then_def get_first_def raise_def returns_def Let_def)
  then have outcome: "fst (check_unique self c w) =
      (if ?dup then Inl (ValueError (duplicate_message self c)) else Inr ())"
    unfolding counted .
  have dispatch: "execute_check self ''unique'' c w = check_unique self c w"
    by (simp add: execute_check_def)
  have total: "count_col ?rows c = int (length (filter (\<lambda>r. r c \<noteq> None) ?rows))"
    by (simp add: count_col_def length_column_values)
  have different: "count_distinct ?rows c = int (card {v. \<exists>r \<in> set ?rows. r c = Some v})"
    by (simp add: count_distinct_def length_remdups_card_conv set_column_values)
  from outcome dispatch total different counted show ?thesis by blast
qed

theorem unique_check_fails_iff_duplicate_witness:
  "fst (check_unique audit_users ''user_id'' users_with_nulls) = Inr ()
   \<and> length (filter (\<lambda>r. r ''user_id'' = None)
        (tables users_with_nulls (''audit'', ''dim_users''))) = 2
   \<and> fst (check_unique audit_users ''user_id'' users_with_duplicate)
       = Inl (ValueError
           ''Data quality check failed: Column user_id in audit table audit.dim_users contains duplicate values.'')
   \<and> ((tables users_with_duplicate (''audit'', ''dim_users'')) ! 0) ''user_id'' = Some (VInt 7)
   \<and> ((tables users_with_duplicate (''audit'', ''dim_users'')) ! 1) ''user_id'' = Some (VInt 7)"
proof -
  have table: "dq_table audit_users = ''dim_users''"
    by (simp add: audit_users_def DataQualityOperator_def)
  have a1: "\<not> faulty users_with_nulls (length (issued users_with_nulls))"
    by (simp add: users_with_nulls_def empty_warehouse_def)
  have rows1: "tables users_with_nulls (''audit'', ''dim_users'') =
        [[''user_id'' \<mapsto> VInt 1], [''level'' \<mapsto> VStr ''free''], [''level'' \<mapsto> VStr ''paid''],
         [''user_id'' \<mapsto> VInt 2]]"
    by (simp add: users_with_nulls_def empty_warehouse_def)
  have none: "\<not> 0 < count_col (tables users_with_nulls (''audit'', ''dim_users'')) ''user_id''
      - count_distinct (tables users_with_nulls (''audit'', ''dim_users'')) ''user_id''"
    by (simp add: rows1 count_col_def count_distinct_def column_values_def)
  have pass: "fst (check_unique audit_users ''user_id'' users_with_nulls) = Inr ()"
    using unique_check_fails_iff_duplicate [OF a1, of audit_users "''user_id''"] none
    unfolding table by simp
  have a2: "\<not> faulty users_with_duplicate (length (issued users_with_duplicate))"
    by (simp add: users_with_duplicate_def empty_warehouse_def)
  have rows2: "tables users_with_duplicate (''audit'', ''dim_users'') =
        [[''user_id'' \<mapsto> VInt 7], [''user_id'' \<mapsto> VInt 7, ''level'' \<mapsto> VStr ''paid''],
         [''level'' \<mapsto> VStr ''free'']]"
    by (simp add: users_with_duplicate_def empty_warehouse_def)
  have some: "0 < count_col (tables users_with_duplicate (''audit'', ''dim_users'')) ''user_id''
      - count_distinct (tables users_with_duplicate (''audit'', ''dim_users'')) ''user_id''"
    by (simp add: rows2 count_col_def count_distinct_def column_values_def)
  have "fst (check_unique audit_users ''user_id'' users_with_duplicate)
      = Inl (ValueError (duplicate_message audit_users ''user_id''))"
    using unique_check_fails_iff_duplicate [OF a2, of audit_users "''user_id''"] some
    unfolding table by simp
  then have fail: "fst (check_unique audit_users ''user_id'' users_with_duplicate)
       = Inl (ValueError
           ''Data quality check failed: Column user_id in audit table audit.dim_users contains duplicate values.'')"
    by (simp add: duplicate_message_def table)
  show ?thesis
    using pass fail by (simp add: rows1 rows2)
qed

section \<open>Audit: the not-null check\<close>

lemma holds_is_null: "holds t (ColIsNull c) = (\<lambda>r. r c = None)"
  by (rule ext) simp

text \<open>
  C6. When the engine answers the query, the not-null check of column \<open>c\<close> raises its
  data-quality error exactly when some row of the working table has NULL in \<open>c\<close>, and
  passes otherwise; over a working table without rows it passes.
\<close>

theorem not_null_check_fails_iff_null:
  assumes answered: "\<not> faulty w (length (issued w))"
  shows "fst (check_not_null self c w) =
           (if \<exists>r \<in> set (tables w (''audit'', dq_table self)). r c = None
            then Inl (ValueError (null_message self c)) else Inr ())
         \<and> (tables w (''audit'', dq_table self) = [] \<longrightarrow> fst (check_not_null self c w) = Inr ())"
proof -
  have "0 < length (filter (\<lambda>r. r c = None) rows) \<longleftrightarrow> (\<exists>r \<in> set rows. r c = None)"
    for rows :: "row list"
    by (simp add: filter_empty_conv)
  then have "0 < int (length (filter (holds (tables w) (ColIsNull c)) rows))
      \<longleftrightarrow> (\<exists>r \<in> set rows. r c = None)" for rows
    by (simp only: holds_is_null of_nat_0_less_iff)
  with answered have "fst (check_not_null self c w) =
           (if \<exists>r \<in> set (tables w (''audit'', dq_table self)). r c = None
            then Inl (ValueError (null_message self c)) else Inr ())"
    by (simp add: check_not_null_def and_then_def get_first_def raise_def returns_def Let_def
        del: length_greater_0_conv of_nat_0_less_iff)
  then show ?thesis by simp
qed

theorem not_null_check_fails_iff_null_witness:
  "fst (check_not_null audit_users ''user_id'' empty_warehouse) = Inr ()
   \<and> fst (check_not_null audit_users ''user_id'' users_with_nulls)
       = Inl (ValueError
           ''Data quality check failed: Column user_id in audit table audit.dim_users contains NULL values.'')"
proof -
  have a1: "\<not> faulty empty_warehouse (length (issued empty_warehouse))"
    by (simp add: empty_warehouse_def)
  have a2: "\<not> faulty users_with_nulls (length (issued users_with_nulls))"
    by (simp add: users_with_nulls_def empty_warehouse_def)
  have table: "dq_table audit_users = ''dim_users''"
    by (simp add: audit_users_def DataQualityOperator_def)
  show ?thesis
    using not_null_check_fails_iff_null [OF a1, of audit_users "''user_id''"]
      not_null_check_fails_iff_null [OF a2, of audit_users "''user_id''"]
    by (simp add: table users_with_nulls_def empty_warehouse_def null_message_def)
qed

section \<open>Stage: delete the run date or truncate, then copy\<close>

lemma holds_epoch_date:
  "holds t (EpochDateEq c d) r \<longleftrightarrow> (\<exists>ts. r c = Some (VInt ts) \<and> epoch_date ts = d)"
  by (auto split: option.splits val.splits)

text \<open>
  C9. When the engine fails neither statement, the stager issues two statements. With
  \<^verbatim>\<open>delete_by_date\<close> it first deletes from the staging table the rows whose \<^verbatim>\<open>ts\<close>
  falls on the run date, keeping every other row as it is and in place, and then copies
  the rows found under the S3 key after them. Without \<^verbatim>\<open>delete_by_date\<close> it truncates
  the staging table, which then holds the copied rows only.
\<close>

theorem stage_deletes_run_date_then_copies:
  assumes first: "\<not> faulty w (length (issued w))"
    and second: "\<not> faulty w (Suc (length (issued w)))"
  shows "stage_execute self creds ctx w =
     (let staging = (''staging'', st_table self);
          s3_path = ''s3://'' @ st_s3_bucket self @ ''/'' @ st_s3_key self;
          copy_sql = Copy staging s3_path (access_key creds) (secret_key creds)
                  (if st_json_path self = ''auto'' then [CHR 0x27] @ ''auto'' @ [CHR 0x27]
                   else [CHR 0x27] @ ''s3://'' @ st_s3_bucket self @ ''/'' @ st_json_path self
                        @ [CHR 0x27])
                  (st_s3_region self)
      in if st_delete_by_date self then
        (Inr (), w\<lparr>issued := issued w @ [Delete staging (EpochDateEq ''ts'' (ds ctx)), copy_sql],
                    tables := (tables w)(staging :=
                       filter (\<lambda>r. \<not> (\<exists>ts. r ''ts'' = Some (VInt ts) \<and> epoch_date ts = ds ctx))
                         (tables w staging)
                       @ s3 w s3_path)\<rparr>)
      else
        (Inr (), w\<lparr>issued := issued w @ [Truncate staging, copy_sql],
                    tables := (tables w)(staging := s3 w s3_path)\<rparr>))"
  using first second
  by (simp add: stage_execute_def next_do_def and_then_def run_def Let_def holds_epoch_date
      del: holds.simps)

lemma day_of_first_event: "epoch_date 1705190400000 = ''2024-01-14''"
  by code_simp

lemma day_of_second_event: "epoch_date 1705276800000 = ''2024-01-15''"
  by code_simp

theorem stage_deletes_run_date_then_copies_witness:
  "tables (snd (stage_execute stage_events some_credentials run_2024_01_15 events_warehouse))
     (''staging'', ''staging_events'')
   = [[''ts'' \<mapsto> VInt 1705190400000, ''page'' \<mapsto> VStr ''NextSong''],
      [''ts'' \<mapsto> VInt 1705276800123, ''page'' \<mapsto> VStr ''NextSong'']]
   \<and> fst (stage_execute stage_events some_credentials run_2024_01_15 events_warehouse) = Inr ()"
proof -
  have first: "\<not> faulty events_warehouse (length (issued events_warehouse))"
    by (simp add: events_warehouse_def empty_warehouse_def)
  have second: "\<not> faulty events_warehouse (Suc (length (issued events_warehouse)))"
    by (simp add: events_warehouse_def empty_warehouse_def)
  show ?thesis
    unfolding stage_deletes_run_date_then_copies [OF first second]
    by (simp add: stage_events_def events_warehouse_def empty_warehouse_def run_2024_01_15_def
        day_of_first_event day_of_second_event Let_def)
qed

section \<open>Audit: the order of the checks\<close>

lemma run_pairs_append:
  "run_pairs self (xs @ ys) = next_do (run_pairs self xs) (run_pairs self ys)"
  by (induction xs) (auto simp: next_do_assoc next_do_returns)

lemma for_columns_pairs: "for_columns self k cs = run_pairs self (map (Pair k) cs)"
  by (induction cs) auto

text \<open>The two loops visit the pairs of the dict in the order of \<open>check_pairs\<close>.\<close>

lemma for_checks_pairs: "for_checks self items = run_pairs self (check_pairs items)"
  by (induction items) (auto simp: check_pairs_def run_pairs_append for_columns_pairs)

lemma for_checks_append:
  "for_checks self (xs @ ys) = next_do (for_checks self xs) (for_checks self ys)"
  by (simp add: for_checks_pairs check_pairs_def run_pairs_append)

text \<open>An audit that raises has a first check that raised, after checks that all passed.\<close>

lemma first_failure_exists:
  "run_pairs self ps w = (Inl e, w') \<Longrightarrow>
   \<exists>pre k c post w1. ps = pre @ (k, c) # post \<and> run_pairs self pre w = (Inr (), w1)
      \<and> execute_check self k c w1 = (Inl e, w')"
proof (induction ps arbitrary: w)
  case Nil
  then show ?case by (simp add: returns_def)
next
  case (Cons p ps)
  obtain k c where p: "p = (k, c)" by (cases p)
  show ?case
  proof (cases "execute_check self k c w")
    case (Pair r v)
    show ?thesis
    proof (cases r)
      case (Inl e')
      with Pair Cons.prems p have "e' = e" "v = w'" by (simp_all add: next_do_raised)
      with Pair Inl p have "p # ps = [] @ (k, c) # ps \<and> run_pairs self [] w = (Inr (), w)
          \<and> execute_check self k c w = (Inl e, w')" by (simp add: returns_def)
      then show ?thesis by blast
    next
      case (Inr u)
      with Pair have ok: "execute_check self k c w = (Inr (), v)" by simp
      with Cons.prems p have "run_pairs self ps v = (Inl e, w')" by (simp add: next_do_returned)
      from Cons.IH [OF this] obtain pre k' c' post w1 where
        "ps = pre @ (k', c') # post" "run_pairs self pre v = (Inr (), w1)"
        "execute_check self k' c' w1 = (Inl e, w')" by blast
      with ok p have "p # ps = ((k, c) # pre) @ (k', c') # post
         \<and> run_pairs self ((k, c) # pre) w = (Inr (), w1)
         \<and> execute_check self k' c' w1 = (Inl e, w')" by (simp add: next_do_returned)
      then show ?thesis by blast
    qed
  qed
qed

text \<open>
  C10. Lay the (check type, column) pairs of the dict out in the order of declaration.
  If the checks of the pairs before one pair all pass, run in that order, and the check of
  that pair raises, then the audit raises that same error and ends in the warehouse that
  check left: the statement log holds the queries up to the failing check and none of a
  later pair, and no later failure is reported.
\<close>

theorem audit_stops_at_first_failure:
  assumes order: "check_pairs (dq_checks self) = pre @ (k, c) # post"
    and passed: "run_pairs self pre w = (Inr (), w1)"
    and failed: "execute_check self k c w1 = (Inl e, w2)"
  shows "data_quality_execute self ctx w = (Inl e, w2)"
proof -
  have "run_pairs self ((k, c) # post) w1 = (Inl e, w2)"
    using failed by (simp add: next_do_raised)
  then have "run_pairs self (pre @ (k, c) # post) w = (Inl e, w2)"
    using passed by (simp add: run_pairs_append next_do_returned)
  then show ?thesis
    by (simp add: data_quality_execute_def for_checks_pairs order)
qed

theorem audit_stops_at_first_failure_witness:
  "data_quality_execute audit_users run_2024_01_15 users_with_nulls =
     (Inl (ValueError
        ''Data quality check failed: Column user_id in audit table audit.dim_users contains NULL values.''),
      users_with_nulls
        \<lparr>issued := [SelectCountMinusDistinct (''audit'', ''dim_users'') ''user_id'',
                    SelectCount (''audit'', ''dim_users'') (ColIsNull ''user_id'')]\<rparr>)"
proof -
  have order: "check_pairs (dq_checks audit_users) =
      [(''unique'', ''user_id'')] @ (''not_null'', ''user_id'')
        # [(''not_null'', ''first_name''), (''not_null'', ''last_name''), (''not_null'', ''level'')]"
    by (simp add: check_pairs_def audit_users_def DataQualityOperator_def)
  have passed: "run_pairs audit_users [(''unique'', ''user_id'')] users_with_nulls =
      (Inr (), users_with_nulls
         \<lparr>issued := [SelectCountMinusDistinct (''audit'', ''dim_users'') ''user_id'']\<rparr>)"
    by (simp add: execute_check_def check_unique_def next_do_def and_then_def get_first_def
        returns_def Let_def count_col_def count_distinct_def column_values_def
        audit_users_def DataQualityOperator_def users_with_nulls_def empty_warehouse_def)
  have failed: "execute_check audit_users ''not_null'' ''user_id''
      (users_with_nulls
         \<lparr>issued := [SelectCountMinusDistinct (''audit'', ''dim_users'') ''user_id'']\<rparr>) =
      (Inl (ValueError
        ''Data quality check failed: Column user_id in audit table audit.dim_users contains NULL values.''),
      users_with_nulls
        \<lparr>issued := [SelectCountMinusDistinct (''audit'', ''dim_users'') ''user_id'',
                    SelectCount (''audit'', ''dim_users'') (ColIsNull ''user_id'')]\<rparr>)"
    by (simp add: execute_check_def check_not_null_def and_then_def get_first_def raise_def
        Let_def null_message_def audit_users_def DataQualityOperator_def users_with_nulls_def
        empty_warehouse_def)
  show ?thesis
    by (rule audit_stops_at_first_failure [OF order passed failed])
qed

section \<open>Audit: an unknown check type\<close>

text \<open>
  C7, as the claim states it, fails. The dict below declares a not-null check and then a
  check type the operator does not know. The not-null query is issued and answered before
  the unknown type is noticed.
\<close>

theorem unknown_check_type_not_raised_first:
  "data_quality_execute audit_users_unknown_type run_2024_01_15 users_warehouse =
     (Inl (ValueError ''Unknown check type: row_count''),
      users_warehouse\<lparr>issued := [SelectCount (''audit'', ''dim_users'') (ColIsNull ''user_id'')]\<rparr>)"
  by (simp add: data_quality_execute_def execute_check_def check_not_null_def next_do_def
      and_then_def get_first_def raise_def returns_def Let_def
      audit_users_unknown_type_def DataQualityOperator_def users_warehouse_def
      empty_warehouse_def)

text \<open>
  C7, amended. An unknown check type is noticed when the loops reach it. If the items
  declared before it all pass and it lists at least one column, the audit raises
  \<^verbatim>\<open>ValueError('Unknown check type: ...')\<close> in the warehouse those items left: their queries
  have been issued, and none for the unknown type or for an item after it.
\<close>

theorem unknown_check_type_raised_when_reached:
  assumes items: "dq_checks self = pre @ (k, c # cs) # post"
    and unknown: "\<not> known_check_type k"
    and passed: "for_checks self pre w = (Inr (), w1)"
  shows "data_quality_execute self ctx w = (Inl (ValueError (''Unknown check type: '' @ k)), w1)"
proof -
  have "execute_check self k c w1 = (Inl (ValueError (''Unknown check type: '' @ k)), w1)"
    using unknown by (simp add: execute_check_def known_check_type_def raise_def)
  then have "for_checks self ((k, c # cs) # post) w1
      = (Inl (ValueError (''Unknown check type: '' @ k)), w1)"
    by (simp add: next_do_raised)
  then show ?thesis using passed
    by (simp add: data_quality_execute_def items for_checks_append next_do_returned)
qed

theorem unknown_check_type_raised_when_reached_witness:
  "data_quality_execute audit_users_regex run_2024_01_15 users_with_nulls =
     (Inl (ValueError ''Unknown check type: regex''),
      users_with_nulls
        \<lparr>issued := [SelectCountMinusDistinct (''audit'', ''dim_users'') ''user_id'']\<rparr>)"
proof -
  have items: "dq_checks audit_users_regex =
      [(''unique'', [''user_id''])] @ (''regex'', ''level'' # []) # [(''not_null'', [''user_id''])]"
    by (simp add: audit_users_regex_def DataQualityOperator_def)
  have unknown: "\<not> known_check_type ''regex''"
    by (simp add: known_check_type_def)
  have passed: "for_checks audit_users_regex [(''unique'', [''user_id''])] users_with_nulls =
      (Inr (), users_with_nulls
         \<lparr>issued := [SelectCountMinusDistinct (''audit'', ''dim_users'') ''user_id'']\<rparr>)"
    by (simp add: execute_check_def check_unique_def next_do_def and_then_def get_first_def
        returns_def Let_def count_col_def count_distinct_def column_values_def
        audit_users_regex_def DataQualityOperator_def users_with_nulls_def empty_warehouse_def)
  show ?thesis
    using unknown_check_type_raised_when_reached [OF items unknown passed, of run_2024_01_15]
    by simp
qed

section \<open>Audit: a working table without rows\<close>

text \<open>
  C8, as the claim states it, fails. Over an empty \<^verbatim>\<open>audit.dim_users\<close> the audit of the
  table, with the checks the pipeline configures for it, issues its five queries and
  returns without raising.
\<close>

theorem empty_table_audit_passes:
  "data_quality_execute audit_users run_2024_01_15 empty_warehouse =
     (Inr (),
      empty_warehouse
        \<lparr>issued := [SelectCountMinusDistinct (''audit'', ''dim_users'') ''user_id'',
                    SelectCount (''audit'', ''dim_users'') (ColIsNull ''user_id''),
                    SelectCount (''audit'', ''dim_users'') (ColIsNull ''first_name''),
                    SelectCount (''audit'', ''dim_users'') (ColIsNull ''last_name''),
                    SelectCount (''audit'', ''dim_users'') (ColIsNull ''level'')]\<rparr>)"
  by (simp add: data_quality_execute_def execute_check_def check_not_null_def check_unique_def
      next_do_def and_then_def get_first_def returns_def Let_def count_col_def
      count_distinct_def column_values_def audit_users_def DataQualityOperator_def
      empty_warehouse_def)

lemma execute_check_empty:
  assumes "tables w (''audit'', dq_table self) = []" and "\<not> faulty w (length (issued w))"
    and "known_check_type k"
  shows "\<exists>q. execute_check self k c w = (Inr (), w\<lparr>issued := issued w @ [q]\<rparr>)"
  using assms
  by (auto simp add: execute_check_def known_check_type_def check_not_null_def check_unique_def
      check_greater_than_zero_def and_then_def get_first_def returns_def Let_def
      count_col_def count_distinct_def column_values_def)

lemma for_columns_empty:
  assumes "tables w (''audit'', dq_table self) = []" and "\<forall>j. \<not> faulty w j"
    and "known_check_type k"
  shows "\<exists>qs. for_columns self k cs w = (Inr (), w\<lparr>issued := issued w @ qs\<rparr>)"
  using assms
proof (induction cs arbitrary: w)
  case Nil
  have "for_columns self k [] w = (Inr (), w\<lparr>issued := issued w @ []\<rparr>)"
    by (simp add: returns_def)
  then show ?case by blast
next
  case (Cons c cs)
  from execute_check_empty [of w self k c] Cons.prems obtain q where
    q: "execute_check self k c w = (Inr (), w\<lparr>issued := issued w @ [q]\<rparr>)" by blast
  from Cons.IH [of "w\<lparr>issued := issued w @ [q]\<rparr>"] Cons.prems obtain qs where
    "for_columns self k cs (w\<lparr>issued := issued w @ [q]\<rparr>)
       = (Inr (), w\<lparr>issued := issued w @ [q] @ qs\<rparr>)" by auto
  with q have "for_columns self k (c # cs) w = (Inr (), w\<lparr>issued := issued w @ (q # qs)\<rparr>)"
    by (simp add: next_do_returned)
  then show ?case by blast
qed

lemma for_checks_empty:
  assumes "tables w (''audit'', dq_table self) = []" and "\<forall>j. \<not> faulty w j"
    and "\<forall>(k, cs) \<in> set items. known_check_type k"
  shows "\<exists>qs. for_checks self items w = (Inr (), w\<lparr>issued := issued w @ qs\<rparr>)"
  using assms
proof (induction items arbitrary: w)
  case Nil
  have "for_checks self [] w = (Inr (), w\<lparr>issued := issued w @ []\<rparr>)"
    by (simp add: returns_def)
  then show ?case by blast
next
  case (Cons item items)
  obtain k cs where item: "item = (k, cs)" by (cases item)
  from for_columns_empty [of w self k cs] Cons.prems item obtain q where
    q: "for_columns self k cs w = (Inr (), w\<lparr>issued := issued w @ q\<rparr>)" by auto
  from Cons.IH [of "w\<lparr>issued := issued w @ q\<rparr>"] Cons.prems obtain qs where
    "for_checks self items (w\<lparr>issued := issued w @ q\<rparr>)
       = (Inr (), w\<lparr>issued := issued w @ q @ qs\<rparr>)" by auto
  with q item have "for_checks self (item # items) w
      = (Inr (), w\<lparr>issued := issued w @ (q @ qs)\<rparr>)"
    by (simp add: next_do_returned)
  then show ?case by blast
qed

text \<open>
  C8, amended. Over a working table without rows, an audit whose check types are all
  known passes when the engine answers every query: each of the three checks counts no
  violation there. It returns without raising and leaves the tables as they were.
\<close>

theorem empty_table_passes_known_checks:
  assumes empty: "tables w (''audit'', dq_table self) = []"
    and known: "\<forall>(k, cs) \<in> set (dq_checks self). known_check_type k"
    and answered: "\<forall>j. \<not> faulty w j"
  shows "fst (data_quality_execute self ctx w) = Inr ()
         \<and> tables (snd (data_quality_execute self ctx w)) = tables w"
proof -
  from for_checks_empty [OF empty answered known] obtain qs where
    "for_checks self (dq_checks self) w = (Inr (), w\<lparr>issued := issued w @ qs\<rparr>)" by blast
  then show ?thesis by (simp add: data_quality_execute_def)
qed

theorem empty_table_passes_known_checks_witness:
  "fst (data_quality_execute audit_songs run_2024_01_15 empty_warehouse) = Inr ()
   \<and> tables (snd (data_quality_execute audit_songs run_2024_01_15 empty_warehouse))
       = tables empty_warehouse"
proof -
  have empty: "tables empty_warehouse (''audit'', dq_table audit_songs) = []"
    by (simp add: empty_warehouse_def)
  have known: "\<forall>(k, cs) \<in> set (dq_checks audit_songs). known_check_type k"
    by (simp add: audit_songs_def DataQualityOperator_def known_check_type_def)
  have answered: "\<forall>j. \<not> faulty empty_warehouse j"
    by (simp add: empty_warehouse_def)
  show ?thesis
    by (rule empty_table_passes_known_checks [OF empty known answered])
qed

end
